theory Spec2Isabelle
  imports Complex_Main
begin

section \<open>Values shared by the three components\<close>

text \<open>
  JavaScript numbers that carry pixel positions and interpolated offsets are modelled as
  \<^typ>\<open>real\<close>: every finite double is a rational number, subtraction of the integer
  offsets the DOM reports is exact, and \<open>Math.round\<close> of a finite double is exactly the
  mathematical rounding below. \<open>NaN\<close> and the infinities are not modelled. The two
  generation counters are modelled as \<^typ>\<open>nat\<close>: they start at 0 and are only ever
  incremented.

  The values the hook assigns to an inline style property, and the values its interpolators
  return, are \<open>undefined\<close>, \<open>null\<close>, a string literal, or the template string
  \<open>`${ x }px`\<close>. The last one is kept structured as \<open>PxStr x\<close>.
\<close>

datatype js_value = Undefined | Null | Str string | PxStr real

text \<open>\<open>Math.round\<close>: the nearest integer, a tie going to the larger one.\<close>

definition Math_round :: "real \<Rightarrow> real" where
  "Math_round v = of_int \<lfloor>v + 1 / 2\<rfloor>"

section \<open>The moving animation hook\<close>

subsection \<open>The element, as the hook reads and writes it\<close>

text \<open>
  The hook writes \<open>style.left\<close> and \<open>style.top\<close> of the element and \<open>scrollTop\<close> of the
  scroll container, and reads \<open>offsetTop\<close>, \<open>offsetLeft\<close> and
  \<open>getBoundingClientRect().top\<close>. What the browser reports for the three reads depends on
  the inline overrides in force at the time of the read, so the element carries them as
  functions of the two overrides. The two style fields hold the value as the hook
  assigned it; an axis carries an override only while its value is a pixel string (the
  empty string, \<open>null\<close> and \<open>undefined\<close> leave the axis without one). Writes to
  \<open>scrollTop\<close> are kept as assigned. Scroll containers are DOM nodes named by a number;
  the hook keeps a reference to one of them across calls.
\<close>

type_synonym node_id = nat

record dom_element =
  style_left :: js_value
  style_top :: js_value
  offsetTop_of :: "js_value \<Rightarrow> js_value \<Rightarrow> real"
  offsetLeft_of :: "js_value \<Rightarrow> js_value \<Rightarrow> real"
  rectTop_of :: "js_value \<Rightarrow> js_value \<Rightarrow> real"
  getScrollContainer :: "node_id option"
  scrollTop :: "node_id \<Rightarrow> real"

definition offsetTop :: "dom_element \<Rightarrow> real" where
  "offsetTop element = offsetTop_of element (style_left element) (style_top element)"

definition offsetLeft :: "dom_element \<Rightarrow> real" where
  "offsetLeft element = offsetLeft_of element (style_left element) (style_top element)"

definition getBoundingClientRect_top :: "dom_element \<Rightarrow> real" where
  "getBoundingClientRect_top element =
     rectTop_of element (style_left element) (style_top element)"

record position =
  pos_top :: real
  pos_left :: real

definition getAbsolutePosition :: "dom_element \<Rightarrow> position" where
  "getAbsolutePosition element =
     \<lparr>pos_top = offsetTop element, pos_left = offsetLeft element\<rparr>"

subsection \<open>Inputs and state of one hook instance\<close>

record 't hook_inputs =
  useReducedMotion :: bool
  isSelected :: bool
  adjustScrolling :: bool
  enableAnimation :: bool
  triggerAnimationOnChange :: 't

record transform_state =
  transform_x :: real
  transform_y :: real
  clientTop :: real

text \<open>
  \<open>deps_triggered\<close> and \<open>deps_trigger\<close> are the dependency values the two layout effects
  last ran with (\<open>None\<close> before the first commit); the framework reruns an effect when
  its dependency differs from them.
\<close>

record 't hook_state =
  triggeredAnimation :: nat
  finishedAnimation :: nat
  transform :: transform_state
  scrollContainer :: "node_id option"
  deps_triggered :: "nat option"
  deps_trigger :: "'t option"

definition counterReducer :: "nat \<Rightarrow> nat" where
  "counterReducer state = state + 1"

definition initial_state :: "'t hook_state" where
  "initial_state =
     \<lparr>triggeredAnimation = 0, finishedAnimation = 0,
      transform = \<lparr>transform_x = 0, transform_y = 0, clientTop = 0\<rparr>,
      scrollContainer = None, deps_triggered = None, deps_trigger = None\<rparr>"

definition prefersReducedMotion :: "'t hook_inputs \<Rightarrow> bool" where
  "prefersReducedMotion inp = (useReducedMotion inp \<or> \<not> enableAnimation inp)"

text \<open>\<open>previous\<close>, read while rendering: \<open>null\<close> while the reference is not attached.\<close>

definition render_previous :: "dom_element option \<Rightarrow> position option" where
  "render_previous ref_current =
     (case ref_current of None \<Rightarrow> None | Some element \<Rightarrow> Some (getAbsolutePosition element))"

subsection \<open>The two layout effects\<close>

text \<open>The first effect: acknowledge a triggered animation.\<close>

definition acknowledge_effect :: "nat \<Rightarrow> 't hook_state \<Rightarrow> 't hook_state" where
  "acknowledge_effect rendered_triggered st =
     (if rendered_triggered \<noteq> 0
      then st\<lparr>finishedAnimation := counterReducer (finishedAnimation st)\<rparr>
      else st)"

text \<open>
  The second effect: measure and freeze. It runs with the element the reference is
  attached to, which the source dereferences without a check once \<open>previous\<close> is set.
\<close>

definition moving_effect ::
  "'t hook_inputs \<Rightarrow> position option \<Rightarrow> dom_element \<Rightarrow> 't hook_state
     \<Rightarrow> dom_element \<times> 't hook_state" where
  "moving_effect inp previous element st =
     (case previous of
        None \<Rightarrow> (element, st)
      | Some prev \<Rightarrow>
          let st1 = st\<lparr>scrollContainer := getScrollContainer element\<rparr> in
          if prefersReducedMotion inp then
            (case (adjustScrolling inp, scrollContainer st1) of
               (True, Some container) \<Rightarrow>
                 let e1 = element\<lparr>style_left := Null\<rparr>;
                     e2 = e1\<lparr>style_top := Null\<rparr>;
                     destination = getAbsolutePosition e2
                 in (e2\<lparr>scrollTop := (scrollTop e2)
                          (container := scrollTop e2 container - pos_top prev
                                          + pos_top destination)\<rparr>, st1)
             | _ \<Rightarrow> (element, st1))
          else
            let e1 = element\<lparr>style_left := Str ''''\<rparr>;
                e2 = e1\<lparr>style_top := Str ''''\<rparr>;
                destination = getAbsolutePosition e2;
                x = pos_left prev - pos_left destination;
                y = pos_top prev - pos_top destination;
                e3 = e2\<lparr>style_left := (if x = 0 then Undefined else PxStr x)\<rparr>;
                e4 = e3\<lparr>style_top := (if y = 0 then Undefined else PxStr y)\<rparr>;
                newTransform =
                  \<lparr>transform_x = x, transform_y = y,
                   clientTop = getBoundingClientRect_top e4\<rparr>
            in (e4, st1\<lparr>triggeredAnimation := counterReducer (triggeredAnimation st1),
                        transform := newTransform\<rparr>))"

text \<open>
  One commit: the effects whose dependency changed run in the order they are declared, on
  the values of this render; then the dependencies are recorded.
\<close>

definition commit ::
  "'t hook_inputs \<Rightarrow> position option \<Rightarrow> dom_element \<Rightarrow> 't hook_state
     \<Rightarrow> dom_element \<times> 't hook_state" where
  "commit inp previous element st =
     (let st1 = (if deps_triggered st = Some (triggeredAnimation st) then st
                 else acknowledge_effect (triggeredAnimation st) st);
          r = (if deps_trigger st = Some (triggerAnimationOnChange inp) then (element, st1)
               else moving_effect inp previous element st1)
      in (fst r, (snd r)\<lparr>deps_triggered := Some (triggeredAnimation st),
                         deps_trigger := Some (triggerAnimationOnChange inp)\<rparr>))"

text \<open>A lifecycle: commits one after the other, each with its own inputs and element.\<close>

fun lifecycle ::
  "('t hook_inputs \<times> position option \<times> dom_element) list \<Rightarrow> 't hook_state
     \<Rightarrow> 't hook_state" where
  "lifecycle [] st = st"
| "lifecycle ((inp, previous, element) # rest) st =
     lifecycle rest (snd (commit inp previous element st))"

subsection \<open>The spring and the returned style\<close>

record spring_props =
  from_x :: real
  from_y :: real
  to_x :: real
  to_y :: real
  reset :: bool
  mass :: real
  tension :: real
  friction :: real
  immediate :: bool

definition useSpring_props :: "'t hook_inputs \<Rightarrow> 't hook_state \<Rightarrow> spring_props" where
  "useSpring_props inp st =
     \<lparr>from_x = transform_x (transform st), from_y = transform_y (transform st),
      to_x = 0, to_y = 0,
      reset = (triggeredAnimation st \<noteq> finishedAnimation st),
      mass = 5, tension = 2000, friction = 200,
      immediate = prefersReducedMotion inp\<rparr>"

text \<open>
  \<open>onFrame\<close> closes over the transform of its render and reads the container reference
  when it is called.
\<close>

definition onFrame ::
  "'t hook_inputs \<Rightarrow> transform_state \<Rightarrow> node_id option \<Rightarrow> dom_element \<Rightarrow> dom_element" where
  "onFrame inp tr scrollContainer_current element =
     (case scrollContainer_current of
        Some container \<Rightarrow>
          if adjustScrolling inp \<and> \<not> prefersReducedMotion inp then
            let blockRect_top = getBoundingClientRect_top element;
                diff = blockRect_top - clientTop tr
            in element\<lparr>scrollTop := (scrollTop element)
                                      (container := scrollTop element container + diff)\<rparr>
          else element
      | None \<Rightarrow> element)"

text \<open>
  The animated values of the spring at one frame, and an interpolation: a value computed
  from them at every frame.
\<close>

record spring_values =
  spring_x :: real
  spring_y :: real

type_synonym 'a animated = "spring_values \<Rightarrow> 'a"

definition interpolate1 :: "real animated \<Rightarrow> (real \<Rightarrow> js_value) \<Rightarrow> js_value animated" where
  "interpolate1 parent f = (\<lambda>frame. f (parent frame))"

definition interpolate2 ::
  "real animated \<Rightarrow> real animated \<Rightarrow> (real \<Rightarrow> real \<Rightarrow> js_value) \<Rightarrow> js_value animated" where
  "interpolate2 parent1 parent2 f = (\<lambda>frame. f (parent1 frame) (parent2 frame))"

definition px_or_nothing :: "real \<Rightarrow> js_value" where
  "px_or_nothing v = (let r = Math_round v in if r = 0 then Undefined else PxStr r)"

definition zIndex_value :: "bool \<Rightarrow> real \<Rightarrow> real \<Rightarrow> js_value" where
  "zIndex_value selected x y =
     (if \<not> selected \<or> (x = 0 \<and> y = 0) then Undefined else Str ''1'')"

type_synonym style_object = "(string \<times> js_value animated) list"

definition useMovingAnimation :: "'t hook_inputs \<Rightarrow> style_object" where
  "useMovingAnimation inp =
     (if prefersReducedMotion inp then []
      else [(''left'', interpolate1 spring_x px_or_nothing),
            (''top'', interpolate1 spring_y px_or_nothing),
            (''zIndex'', interpolate2 spring_x spring_y (zIndex_value (isSelected inp)))])"

text \<open>The value a style object exposes for a key at a frame; \<open>None\<close> when the key is absent.\<close>

definition style_at :: "style_object \<Rightarrow> spring_values \<Rightarrow> string \<Rightarrow> js_value option" where
  "style_at style frame key = map_option (\<lambda>f. f frame) (map_of style key)"

text \<open>A key overrides the caller's style at a frame when it is present and defined.\<close>

definition overrides :: "style_object \<Rightarrow> spring_values \<Rightarrow> string \<Rightarrow> bool" where
  "overrides style frame key =
     (case style_at style frame key of None \<Rightarrow> False | Some v \<Rightarrow> v \<noteq> Undefined)"

section \<open>The heading level dropdown\<close>

text \<open>
  The toggle button of the dropdown, as far as its icon and its key handler go. The hook
  \<open>useIsHeadingLevelValid\<close> and the key code \<open>DOWN\<close> are imported from modules outside
  these sources, so both are parameters. The component binds the hook's result to
  \<open>levelIsInvalid\<close>; which of the two answers the hook gives for a valid level is decided
  in the hook's own module and is left open here.
\<close>

datatype vnode =
    HeadingLevelIcon nat
  | Span string

record toolbar_button =
  aria_expanded :: bool
  className :: string
  icon :: "vnode list"

definition invalid_indicator :: vnode where
  "invalid_indicator =
     Span ''block-library-heading__heading-level-dropdown-button-invalid-indicator''"

definition renderToggle ::
  "('c \<Rightarrow> nat \<Rightarrow> bool) \<Rightarrow> 'c \<Rightarrow> nat \<Rightarrow> bool \<Rightarrow> toolbar_button" where
  "renderToggle useIsHeadingLevelValid clientId selectedLevel isOpen =
     (let levelIsInvalid = useIsHeadingLevelValid clientId selectedLevel in
      \<lparr>aria_expanded = isOpen,
       className = ''block-library-heading__heading-level-dropdown-button'',
       icon = HeadingLevelIcon selectedLevel #
              (if levelIsInvalid then [invalid_indicator] else [])\<rparr>)"

text \<open>
  A handler is modelled by the calls it makes, in order: on the event, and to the
  dropdown's \<open>onToggle\<close>.
\<close>

datatype handler_call = PreventDefault | StopPropagation | OnToggle

record key_event =
  keyCode :: nat

definition openOnArrowDown :: "nat \<Rightarrow> bool \<Rightarrow> key_event \<Rightarrow> handler_call list" where
  "openOnArrowDown DOWN isOpen event =
     (if \<not> isOpen \<and> keyCode event = DOWN
      then [PreventDefault, StopPropagation, OnToggle]
      else [])"

text \<open>The dropdown's open state after a handler ran: each \<open>onToggle\<close> call flips it.\<close>

fun after_calls :: "handler_call list \<Rightarrow> bool \<Rightarrow> bool" where
  "after_calls [] isOpen = isOpen"
| "after_calls (OnToggle # calls) isOpen = after_calls calls (\<not> isOpen)"
| "after_calls (_ # calls) isOpen = after_calls calls isOpen"

section \<open>The block directory selectors\<close>

text \<open>
  The state the selectors read, in the shape the tests build it. A block of the directory
  is opaque here.
\<close>

record blockManagement_state =
  installedBlockTypes :: "string list"

record 'b downloadableBlocks_state =
  pendingBlockRequests :: nat
  results :: "(string \<times> 'b list) list"

record 'b directory_state =
  blockManagement :: blockManagement_state
  downloadableBlocks :: "'b downloadableBlocks_state"
  errorNotices :: "(string \<times> string) list"

datatype notice_or_false = Notice string | JsFalse

text \<open>
  Modelled from the spec: the selector \<open>getErrorNoticeForBlock\<close> of
  \<open>block-directory/src/store/selectors.js\<close>, which is not among the sources (only its
  tests are). The spec: a single error notice or a false sentinel when absent.
\<close>

definition getErrorNoticeForBlock :: "'b directory_state \<Rightarrow> string \<Rightarrow> notice_or_false" where
  "getErrorNoticeForBlock state blockId =
     (case map_of (errorNotices state) blockId of
        Some notice \<Rightarrow> Notice notice
      | None \<Rightarrow> JsFalse)"

text \<open>
  Modelled from the spec: the selector \<open>getDownloadableBlocks\<close> of the same missing
  file. The spec: query-keyed result arrays (empty array, never absent, when the query key
  is unmatched).
\<close>

definition getDownloadableBlocks :: "'b directory_state \<Rightarrow> string \<Rightarrow> 'b list" where
  "getDownloadableBlocks state filterValue =
     (case map_of (results (downloadableBlocks state)) filterValue of
        Some blocks \<Rightarrow> blocks
      | None \<Rightarrow> [])"

text \<open>The two states of the test suite, the second around a fixture block.\<close>

definition notices_test_state :: "'b directory_state" where
  "notices_test_state =
     \<lparr>blockManagement = \<lparr>installedBlockTypes = []\<rparr>,
      downloadableBlocks = \<lparr>pendingBlockRequests = 0, results = []\<rparr>,
      errorNotices = [(''block/has-error'', ''Error notice'')]\<rparr>"

definition blocks_test_state :: "'b \<Rightarrow> 'b directory_state" where
  "blocks_test_state downloadableBlock =
     \<lparr>blockManagement = \<lparr>installedBlockTypes = []\<rparr>,
      downloadableBlocks =
        \<lparr>pendingBlockRequests = 0, results = [(''boxer'', [downloadableBlock])]\<rparr>,
      errorNotices = []\<rparr>"

section \<open>Worked examples\<close>

text \<open>
  An element that flows to top 20, left 50 and is shifted by a pixel override, inside a
  container scrolled to 640; a block that was at top 100, left 50 before it moved.
\<close>

definition shift_of :: "js_value \<Rightarrow> real" where
  "shift_of v = (case v of PxStr d \<Rightarrow> d | _ \<Rightarrow> 0)"

definition moved_element :: dom_element where
  "moved_element =
     \<lparr>style_left = Undefined, style_top = Undefined,
      offsetTop_of = (\<lambda>l t. 20 + shift_of t),
      offsetLeft_of = (\<lambda>l t. 50 + shift_of l),
      rectTop_of = (\<lambda>l t. 300 + shift_of t),
      getScrollContainer = Some 7,
      scrollTop = (\<lambda>n. if n = 7 then 640 else 0)\<rparr>"

definition before_move :: position where
  "before_move = \<lparr>pos_top = 100, pos_left = 50\<rparr>"

definition animated_inputs :: "nat \<Rightarrow> nat hook_inputs" where
  "animated_inputs trigger =
     \<lparr>useReducedMotion = False, isSelected = True, adjustScrolling = True,
      enableAnimation = True, triggerAnimationOnChange = trigger\<rparr>"

definition still_inputs :: "nat \<Rightarrow> nat hook_inputs" where
  "still_inputs trigger =
     \<lparr>useReducedMotion = True, isSelected = True, adjustScrolling = True,
      enableAnimation = True, triggerAnimationOnChange = trigger\<rparr>"

definition mounted_state :: "nat hook_state" where
  "mounted_state = snd (commit (animated_inputs 1) None moved_element initial_state)"

section \<open>Facts about the definitions\<close>

subsection \<open>Rounding\<close>

lemma Math_round_int: "Math_round v \<in> \<int>"
  by (simp add: Math_round_def)

lemma Math_round_nearest: "\<bar>Math_round v - v\<bar> \<le> 1 / 2"
  unfolding Math_round_def by linarith

lemma Math_round_zero_iff: "Math_round v = 0 \<longleftrightarrow> - 1 / 2 \<le> v \<and> v < 1 / 2"
  unfolding Math_round_def by (simp add: floor_eq_iff) linarith?

lemma Math_round_0: "Math_round 0 = 0"
  by (simp add: Math_round_def)

subsection \<open>The returned style, key by key\<close>

lemma style_keys:
  "\<not> prefersReducedMotion inp \<Longrightarrow>
     style_at (useMovingAnimation inp) frame ''left'' = Some (px_or_nothing (spring_x frame)) \<and>
     style_at (useMovingAnimation inp) frame ''top'' = Some (px_or_nothing (spring_y frame)) \<and>
     style_at (useMovingAnimation inp) frame ''zIndex'' =
       Some (zIndex_value (isSelected inp) (spring_x frame) (spring_y frame))"
  by (simp add: useMovingAnimation_def style_at_def interpolate1_def interpolate2_def)

lemma style_reduced:
  "prefersReducedMotion inp \<Longrightarrow> style_at (useMovingAnimation inp) frame key = None"
  by (simp add: useMovingAnimation_def style_at_def)

lemma animated_inputs_simps:
  "\<not> prefersReducedMotion (animated_inputs trigger)"
  "isSelected (animated_inputs trigger)"
  "adjustScrolling (animated_inputs trigger)"
  "triggerAnimationOnChange (animated_inputs trigger) = trigger"
  by (simp_all add: animated_inputs_def prefersReducedMotion_def)

subsection \<open>The effects\<close>

lemma moving_effect_animated:
  assumes "\<not> prefersReducedMotion inp"
    and "x = pos_left prev - offsetLeft_of element (Str '''') (Str '''')"
    and "y = pos_top prev - offsetTop_of element (Str '''') (Str '''')"
  shows "moving_effect inp (Some prev) element st =
           (element\<lparr>style_left := (if x = 0 then Undefined else PxStr x),
                    style_top := (if y = 0 then Undefined else PxStr y)\<rparr>,
            st\<lparr>scrollContainer := getScrollContainer element,
               triggeredAnimation := triggeredAnimation st + 1,
               transform :=
                 \<lparr>transform_x = x, transform_y = y,
                  clientTop = rectTop_of element (if x = 0 then Undefined else PxStr x)
                                (if y = 0 then Undefined else PxStr y)\<rparr>\<rparr>)"
  using assms
  by (simp add: moving_effect_def Let_def getAbsolutePosition_def offsetLeft_def
      offsetTop_def counterReducer_def getBoundingClientRect_top_def)

lemma moving_effect_still:
  assumes "prefersReducedMotion inp"
  shows "moving_effect inp (Some prev) element st =
           (if adjustScrolling inp then
              (case getScrollContainer element of
                 Some container \<Rightarrow>
                   element\<lparr>style_left := Null, style_top := Null,
                     scrollTop := (scrollTop element)
                       (container := scrollTop element container - pos_top prev
                                       + offsetTop_of element Null Null)\<rparr>
               | None \<Rightarrow> element)
            else element,
            st\<lparr>scrollContainer := getScrollContainer element\<rparr>)"
  using assms
  by (simp add: moving_effect_def Let_def getAbsolutePosition_def offsetLeft_def
      offsetTop_def split: option.splits bool.splits)

lemma commit_triggered:
  "triggeredAnimation (snd (commit inp previous element st)) =
     (if deps_trigger st \<noteq> Some (triggerAnimationOnChange inp) \<and> previous \<noteq> None \<and>
         \<not> prefersReducedMotion inp
      then counterReducer (triggeredAnimation st) else triggeredAnimation st)"
  by (auto simp: commit_def moving_effect_def acknowledge_effect_def Let_def
      split: option.splits bool.splits)

lemma commit_finished:
  "finishedAnimation (snd (commit inp previous element st)) =
     (if deps_triggered st \<noteq> Some (triggeredAnimation st) \<and> triggeredAnimation st \<noteq> 0
      then counterReducer (finishedAnimation st) else finishedAnimation st)"
  by (auto simp: commit_def moving_effect_def acknowledge_effect_def Let_def
      split: option.splits bool.splits)

lemma commit_deps:
  "deps_triggered (snd (commit inp previous element st)) = Some (triggeredAnimation st)"
  "deps_trigger (snd (commit inp previous element st)) = Some (triggerAnimationOnChange inp)"
  by (simp_all add: commit_def Let_def)

lemma lifecycle_monotone:
  "triggeredAnimation st \<le> triggeredAnimation (lifecycle steps st) \<and>
   finishedAnimation st \<le> finishedAnimation (lifecycle steps st)"
proof (induction steps arbitrary: st)
  case Nil
  then show ?case by simp
next
  case (Cons step steps)
  obtain inp previous element where step: "step = (inp, previous, element)"
    by (cases step) auto
  let ?st = "snd (commit inp previous element st)"
  have "triggeredAnimation st \<le> triggeredAnimation ?st"
    by (simp add: commit_triggered counterReducer_def)
  moreover have "finishedAnimation st \<le> finishedAnimation ?st"
    by (simp add: commit_finished counterReducer_def)
  ultimately show ?case
    using Cons.IH [of ?st] step by (simp add: le_trans)
qed

lemma mounted_state_simps:
  "triggeredAnimation mounted_state = 0"
  "finishedAnimation mounted_state = 0"
  "deps_triggered mounted_state = Some 0"
  "deps_trigger mounted_state = Some 1"
  by (simp_all add: mounted_state_def commit_def moving_effect_def acknowledge_effect_def
      animated_inputs_def initial_state_def)

text \<open>
  The two counters never drift apart by more than one: an acknowledgement follows each
  trigger on the next commit.
\<close>

lemma commit_counters_lag:
  assumes "finishedAnimation st = triggeredAnimation st \<and>
             deps_triggered st = Some (triggeredAnimation st) \<or>
           triggeredAnimation st = finishedAnimation st + 1 \<and>
             deps_triggered st = Some (finishedAnimation st) \<or>
           triggeredAnimation st = 0 \<and> finishedAnimation st = 0 \<and> deps_triggered st = None"
  shows "finishedAnimation (snd (commit inp previous element st)) =
             triggeredAnimation (snd (commit inp previous element st)) \<and>
           deps_triggered (snd (commit inp previous element st)) =
             Some (triggeredAnimation (snd (commit inp previous element st))) \<or>
         triggeredAnimation (snd (commit inp previous element st)) =
             finishedAnimation (snd (commit inp previous element st)) + 1 \<and>
           deps_triggered (snd (commit inp previous element st)) =
             Some (finishedAnimation (snd (commit inp previous element st)))"
  using assms
  by (auto simp: commit_triggered commit_finished commit_deps counterReducer_def)

section \<open>The moving animation: measure, freeze and interpolate\<close>

text \<open>
  Claim C1. On a commit where the trigger value changed, a prior position was recorded and
  reduced motion is not in effect, the destination is the position read with both inline
  overrides cleared to the empty string, the delta is previous minus destination on each
  axis, and the inline override reapplied on an axis is the delta in pixels, or nothing
  when the delta is 0. The delta is what the spring starts from, on its way to (0, 0);
  the style exposes the rounded start value at the first frame and nothing at (0, 0).
\<close>

theorem measure_and_freeze:
  assumes "\<not> prefersReducedMotion inp"
    and "deps_trigger st \<noteq> Some (triggerAnimationOnChange inp)"
    and "x = pos_left prev - offsetLeft_of element (Str '''') (Str '''')"
    and "y = pos_top prev - offsetTop_of element (Str '''') (Str '''')"
    and "r = commit inp (Some prev) element st"
  shows "style_left (fst r) = (if x = 0 then Undefined else PxStr x) \<and>
         style_top (fst r) = (if y = 0 then Undefined else PxStr y) \<and>
         transform_x (transform (snd r)) = x \<and>
         transform_y (transform (snd r)) = y \<and>
         from_x (useSpring_props inp (snd r)) = x \<and>
         from_y (useSpring_props inp (snd r)) = y \<and>
         to_x (useSpring_props inp (snd r)) = 0 \<and>
         to_y (useSpring_props inp (snd r)) = 0 \<and>
         \<not> immediate (useSpring_props inp (snd r)) \<and>
         style_at (useMovingAnimation inp) \<lparr>spring_x = x, spring_y = y\<rparr> ''left'' =
           Some (if Math_round x = 0 then Undefined else PxStr (Math_round x)) \<and>
         style_at (useMovingAnimation inp) \<lparr>spring_x = x, spring_y = y\<rparr> ''top'' =
           Some (if Math_round y = 0 then Undefined else PxStr (Math_round y)) \<and>
         style_at (useMovingAnimation inp) \<lparr>spring_x = 0, spring_y = 0\<rparr> ''top'' =
           Some Undefined"
proof -
  let ?st1 = "if deps_triggered st = Some (triggeredAnimation st) then st
              else acknowledge_effect (triggeredAnimation st) st"
  let ?left = "if x = 0 then Undefined else PxStr x"
  let ?top = "if y = 0 then Undefined else PxStr y"
  have eff: "moving_effect inp (Some prev) element ?st1 =
             (element\<lparr>style_left := ?left, style_top := ?top\<rparr>,
              ?st1\<lparr>scrollContainer := getScrollContainer element,
                    triggeredAnimation := triggeredAnimation ?st1 + 1,
                    transform := \<lparr>transform_x = x, transform_y = y,
                                  clientTop = rectTop_of element ?left ?top\<rparr>\<rparr>)"
    by (rule moving_effect_animated [OF assms(1,3,4)])
  have r: "style_left (fst r) = ?left" "style_top (fst r) = ?top"
    "transform (snd r) =
       \<lparr>transform_x = x, transform_y = y, clientTop = rectTop_of element ?left ?top\<rparr>"
    unfolding assms(5) commit_def Let_def using assms(2) by (simp_all add: eff)
  have imm: "\<not> immediate (useSpring_props inp (snd r))"
    using assms(1) by (simp add: useSpring_props_def)
  show ?thesis
    using r imm Math_round_0 style_keys [OF assms(1), of "\<lparr>spring_x = x, spring_y = y\<rparr>"]
      style_keys [OF assms(1), of "\<lparr>spring_x = 0, spring_y = 0\<rparr>"]
    by (simp add: useSpring_props_def px_or_nothing_def Let_def)
qed

text \<open>
  The block that was at top 100, left 50 and now flows to top 20, left 50: the y-delta is
  80, the x-delta 0, no left override, a top override of 80 pixels that the spring takes
  from 80 to 0.
\<close>

theorem measure_and_freeze_witness:
  "style_left (fst (commit (animated_inputs 2) (Some before_move) moved_element
      mounted_state)) = Undefined \<and>
   style_top (fst (commit (animated_inputs 2) (Some before_move) moved_element
      mounted_state)) = PxStr 80 \<and>
   transform_x (transform (snd (commit (animated_inputs 2) (Some before_move) moved_element
      mounted_state))) = 0 \<and>
   transform_y (transform (snd (commit (animated_inputs 2) (Some before_move) moved_element
      mounted_state))) = 80 \<and>
   from_y (useSpring_props (animated_inputs 2)
      (snd (commit (animated_inputs 2) (Some before_move) moved_element
        mounted_state))) = 80 \<and>
   to_y (useSpring_props (animated_inputs 2)
      (snd (commit (animated_inputs 2) (Some before_move) moved_element
        mounted_state))) = 0 \<and>
   style_at (useMovingAnimation (animated_inputs 2)) \<lparr>spring_x = 0, spring_y = 80\<rparr> ''left'' =
     Some Undefined \<and>
   style_at (useMovingAnimation (animated_inputs 2)) \<lparr>spring_x = 0, spring_y = 80\<rparr> ''top'' =
     Some (PxStr 80) \<and>
   style_at (useMovingAnimation (animated_inputs 2)) \<lparr>spring_x = 0, spring_y = 0\<rparr> ''top'' =
     Some Undefined"
proof -
  have d: "deps_trigger mounted_state \<noteq> Some (triggerAnimationOnChange (animated_inputs 2))"
    by (simp add: mounted_state_simps animated_inputs_simps)
  have x: "(0::real) = pos_left before_move - offsetLeft_of moved_element (Str '''') (Str '''')"
    by (simp add: before_move_def moved_element_def shift_of_def)
  have y: "(80::real) = pos_top before_move - offsetTop_of moved_element (Str '''') (Str '''')"
    by (simp add: before_move_def moved_element_def shift_of_def)
  have m: "Math_round 80 = 80" "Math_round 0 = 0"
    by (simp_all add: Math_round_def)
  show ?thesis
    using measure_and_freeze [OF animated_inputs_simps(1) d x y refl] m by simp
qed

section \<open>Reduced motion\<close>

text \<open>
  Claim C2. When the reduce-motion preference is active or \<open>enableAnimation\<close> is false,
  the returned style object is empty, so it has no left, top or zIndex key at any frame
  and whatever the transform state holds; the spring is told to be immediate and the
  frame callback leaves the scroll position alone. The scroll position still follows the
  block: on a commit where the trigger changed, with a prior position, scroll adjustment
  requested and a scroll container found, the container's \<open>scrollTop\<close> is set at once to
  \<open>scrollTop - previous.top + destination.top\<close>, the destination read with both overrides
  set to \<open>null\<close>; no animation is triggered and the transform state is kept.
\<close>

theorem reduced_motion_style_empty:
  assumes "useReducedMotion inp \<or> \<not> enableAnimation inp"
  shows "useMovingAnimation inp = [] \<and>
         style_at (useMovingAnimation inp) frame key = None \<and>
         immediate (useSpring_props inp st) \<and>
         onFrame inp tr scrollContainer_current element = element \<and>
         (deps_trigger st \<noteq> Some (triggerAnimationOnChange inp) \<and> adjustScrolling inp \<and>
          getScrollContainer element = Some container \<longrightarrow>
            fst (commit inp (Some prev) element st) =
              element\<lparr>style_left := Null, style_top := Null,
                scrollTop := (scrollTop element)
                  (container := scrollTop element container - pos_top prev
                                  + offsetTop_of element Null Null)\<rparr> \<and>
            transform (snd (commit inp (Some prev) element st)) = transform st \<and>
            triggeredAnimation (snd (commit inp (Some prev) element st)) =
              triggeredAnimation st)"
proof -
  have p: "prefersReducedMotion inp"
    using assms by (simp add: prefersReducedMotion_def)
  have style: "useMovingAnimation inp = []"
    using p by (simp add: useMovingAnimation_def)
  have frame: "onFrame inp tr scrollContainer_current element = element"
    using p by (simp add: onFrame_def split: option.splits)
  have eff: "fst (commit inp (Some prev) element st) =
               element\<lparr>style_left := Null, style_top := Null,
                 scrollTop := (scrollTop element)
                   (container := scrollTop element container - pos_top prev
                                   + offsetTop_of element Null Null)\<rparr> \<and>
             transform (snd (commit inp (Some prev) element st)) = transform st \<and>
             triggeredAnimation (snd (commit inp (Some prev) element st)) =
               triggeredAnimation st"
    if "deps_trigger st \<noteq> Some (triggerAnimationOnChange inp)" "adjustScrolling inp"
      "getScrollContainer element = Some container"
    using that
    by (simp add: commit_def Let_def moving_effect_still [OF p] acknowledge_effect_def)
  show ?thesis
    using style frame eff p by (simp add: style_at_def useSpring_props_def)
qed

text \<open>
  With the preference active, the block that moved from top 100 to top 20 inside the
  container scrolled to 640: an empty style, and the container jumps to 560.
\<close>

theorem reduced_motion_style_empty_witness:
  "useMovingAnimation (still_inputs 2) = [] \<and>
   style_at (useMovingAnimation (still_inputs 2)) \<lparr>spring_x = 0, spring_y = 80\<rparr> ''top'' =
     None \<and>
   immediate (useSpring_props (still_inputs 2) mounted_state) \<and>
   scrollTop (fst (commit (still_inputs 2) (Some before_move) moved_element mounted_state)) 7 =
     560 \<and>
   style_top (fst (commit (still_inputs 2) (Some before_move) moved_element mounted_state)) =
     Null \<and>
   triggeredAnimation (snd (commit (still_inputs 2) (Some before_move) moved_element
     mounted_state)) = 0"
proof -
  have i: "useReducedMotion (still_inputs 2) \<or> \<not> enableAnimation (still_inputs 2)"
    by (simp add: still_inputs_def)
  have d: "deps_trigger mounted_state \<noteq> Some (triggerAnimationOnChange (still_inputs 2))"
    "adjustScrolling (still_inputs 2)" "getScrollContainer moved_element = Some 7"
    by (simp_all add: mounted_state_simps still_inputs_def moved_element_def)
  show ?thesis
    using reduced_motion_style_empty [OF i, of "\<lparr>spring_x = 0, spring_y = 80\<rparr>" "''top''"
        mounted_state "\<lparr>transform_x = 0, transform_y = 0, clientTop = 0\<rparr>" "Some 7"
        moved_element 7 before_move] d
    by (simp add: moved_element_def before_move_def shift_of_def mounted_state_simps
        style_at_def)
qed

section \<open>The exposed style at a frame\<close>

text \<open>
  Claim C3. At every frame of the animation, the value exposed for \<open>left\<close> and for
  \<open>top\<close> is the interpolated offset rounded to the nearest integer pixel (an integer at
  most half a pixel away), or nothing when that integer is 0; and once the interpolated
  value is exactly zero on both axes the style overrides neither \<open>left\<close>, nor \<open>top\<close>,
  nor \<open>zIndex\<close>.
\<close>

theorem exposed_offsets_rounded:
  assumes "\<not> prefersReducedMotion inp"
  shows "style_at (useMovingAnimation inp) frame ''left'' =
           Some (if Math_round (spring_x frame) = 0 then Undefined
                 else PxStr (Math_round (spring_x frame))) \<and>
         style_at (useMovingAnimation inp) frame ''top'' =
           Some (if Math_round (spring_y frame) = 0 then Undefined
                 else PxStr (Math_round (spring_y frame))) \<and>
         Math_round (spring_x frame) \<in> \<int> \<and>
         \<bar>Math_round (spring_x frame) - spring_x frame\<bar> \<le> 1 / 2 \<and>
         Math_round (spring_y frame) \<in> \<int> \<and>
         \<bar>Math_round (spring_y frame) - spring_y frame\<bar> \<le> 1 / 2 \<and>
         (spring_x frame = 0 \<and> spring_y frame = 0 \<longrightarrow>
            \<not> overrides (useMovingAnimation inp) frame ''left'' \<and>
            \<not> overrides (useMovingAnimation inp) frame ''top'' \<and>
            \<not> overrides (useMovingAnimation inp) frame ''zIndex'')"
proof -
  have keys:
    "style_at (useMovingAnimation inp) frame ''left'' = Some (px_or_nothing (spring_x frame))"
    "style_at (useMovingAnimation inp) frame ''top'' = Some (px_or_nothing (spring_y frame))"
    "style_at (useMovingAnimation inp) frame ''zIndex'' =
       Some (zIndex_value (isSelected inp) (spring_x frame) (spring_y frame))"
    using style_keys [OF assms, of frame] by simp_all
  show ?thesis
    using keys Math_round_int Math_round_nearest Math_round_0
    by (simp add: overrides_def px_or_nothing_def zIndex_value_def Let_def)
qed

text \<open>Offsets 12.6 and -3.5 are exposed as 13 and -3 pixels; at (0, 0) nothing is.\<close>

theorem exposed_offsets_rounded_witness:
  "style_at (useMovingAnimation (animated_inputs 2))
     \<lparr>spring_x = 63 / 5, spring_y = - 7 / 2\<rparr> ''left'' = Some (PxStr 13) \<and>
   style_at (useMovingAnimation (animated_inputs 2))
     \<lparr>spring_x = 63 / 5, spring_y = - 7 / 2\<rparr> ''top'' = Some (PxStr (- 3)) \<and>
   \<not> overrides (useMovingAnimation (animated_inputs 2)) \<lparr>spring_x = 0, spring_y = 0\<rparr>
       ''left'' \<and>
   \<not> overrides (useMovingAnimation (animated_inputs 2)) \<lparr>spring_x = 0, spring_y = 0\<rparr>
       ''top'' \<and>
   \<not> overrides (useMovingAnimation (animated_inputs 2)) \<lparr>spring_x = 0, spring_y = 0\<rparr>
       ''zIndex''"
proof -
  have m: "Math_round (63 / 5) = 13" "Math_round (- 7 / 2) = - 3"
    by (simp_all add: Math_round_def)
  show ?thesis
    using exposed_offsets_rounded [OF animated_inputs_simps(1),
        of 2 "\<lparr>spring_x = 63 / 5, spring_y = - 7 / 2\<rparr>"]
      exposed_offsets_rounded [OF animated_inputs_simps(1),
        of 2 "\<lparr>spring_x = 0, spring_y = 0\<rparr>"] m
    by simp
qed

text \<open>
  Claim C5. At every frame, the style overrides \<open>zIndex\<close> exactly when the animation is
  running (reduced motion is not in effect), the element is selected, and the interpolated
  x and y are not both zero; the override is then the string \<open>'1'\<close>. So an element that
  is not selected never gets one, and the override is gone once both values are zero.
\<close>

theorem zIndex_override_iff:
  "(overrides (useMovingAnimation inp) frame ''zIndex'' \<longleftrightarrow>
      \<not> prefersReducedMotion inp \<and> isSelected inp \<and>
      \<not> (spring_x frame = 0 \<and> spring_y frame = 0)) \<and>
   (overrides (useMovingAnimation inp) frame ''zIndex'' \<longrightarrow>
      style_at (useMovingAnimation inp) frame ''zIndex'' = Some (Str ''1''))"
proof (cases "prefersReducedMotion inp")
  case True
  then show ?thesis by (simp add: overrides_def style_reduced)
next
  case False
  then show ?thesis
    using style_keys [OF False, of frame]
    by (simp add: overrides_def zIndex_value_def)
qed

text \<open>
  A selected block halfway through its move is raised; settled it is not; the same frame
  of a block that is not selected is not raised either.
\<close>

theorem zIndex_override_iff_witness:
  "overrides (useMovingAnimation (animated_inputs 2)) \<lparr>spring_x = 0, spring_y = 40\<rparr>
     ''zIndex'' \<and>
   style_at (useMovingAnimation (animated_inputs 2)) \<lparr>spring_x = 0, spring_y = 40\<rparr>
     ''zIndex'' = Some (Str ''1'') \<and>
   \<not> overrides (useMovingAnimation (animated_inputs 2)) \<lparr>spring_x = 0, spring_y = 0\<rparr>
       ''zIndex'' \<and>
   \<not> overrides (useMovingAnimation ((animated_inputs 2)\<lparr>isSelected := False\<rparr>))
       \<lparr>spring_x = 0, spring_y = 40\<rparr> ''zIndex''"
  using
    zIndex_override_iff [of "animated_inputs 2" "\<lparr>spring_x = 0, spring_y = 40\<rparr>"]
    zIndex_override_iff [of "animated_inputs 2" "\<lparr>spring_x = 0, spring_y = 0\<rparr>"]
    zIndex_override_iff [of "(animated_inputs 2)\<lparr>isSelected := False\<rparr>"
      "\<lparr>spring_x = 0, spring_y = 40\<rparr>"]
  by (simp add: animated_inputs_simps)

text \<open>
  Claim C10. While the element is selected and both interpolated offsets are nonzero but
  below half a pixel in absolute value, the style holds the \<open>zIndex\<close> override \<open>'1'\<close> and
  overrides neither \<open>left\<close> nor \<open>top\<close>: both offsets round to 0, which drops the
  positional overrides, while \<open>zIndex\<close> is decided on the values before rounding.
\<close>

theorem zIndex_without_offsets:
  assumes "\<not> prefersReducedMotion inp" and "isSelected inp"
    and "spring_x frame \<noteq> 0" and "spring_y frame \<noteq> 0"
    and "\<bar>spring_x frame\<bar> < 1 / 2" and "\<bar>spring_y frame\<bar> < 1 / 2"
  shows "style_at (useMovingAnimation inp) frame ''zIndex'' = Some (Str ''1'') \<and>
         overrides (useMovingAnimation inp) frame ''zIndex'' \<and>
         \<not> overrides (useMovingAnimation inp) frame ''left'' \<and>
         \<not> overrides (useMovingAnimation inp) frame ''top'' \<and>
         Math_round (spring_x frame) = 0 \<and> Math_round (spring_y frame) = 0"
proof -
  have rx: "Math_round (spring_x frame) = 0" and ry: "Math_round (spring_y frame) = 0"
    unfolding Math_round_zero_iff using assms(5,6) by linarith+
  show ?thesis
    using style_keys [OF assms(1), of frame] assms(2,3) rx ry
    by (simp add: overrides_def px_or_nothing_def zIndex_value_def)
qed

text \<open>Offsets of 0.3 and -0.4 pixels: raised, yet not shifted.\<close>

theorem zIndex_without_offsets_witness:
  "style_at (useMovingAnimation (animated_inputs 2))
     \<lparr>spring_x = 3 / 10, spring_y = - 2 / 5\<rparr> ''zIndex'' = Some (Str ''1'') \<and>
   \<not> overrides (useMovingAnimation (animated_inputs 2))
       \<lparr>spring_x = 3 / 10, spring_y = - 2 / 5\<rparr> ''left'' \<and>
   \<not> overrides (useMovingAnimation (animated_inputs 2))
       \<lparr>spring_x = 3 / 10, spring_y = - 2 / 5\<rparr> ''top''"
  using zIndex_without_offsets [of "animated_inputs 2"
      "\<lparr>spring_x = 3 / 10, spring_y = - 2 / 5\<rparr>"]
  by (simp add: animated_inputs_simps)

section \<open>The generation counters\<close>

text \<open>
  Claim C6. Both generation counters start at 0. A commit leaves each of them as it is or
  increments it by 1: the trigger counter exactly when the measure-and-freeze effect runs
  with a prior position and reduced motion off, the acknowledgement counter exactly when
  the trigger counter changed since the last commit and is not 0. Over any lifecycle
  neither counter decreases. The spring's reset flag is set exactly when the two counters
  differ.
\<close>

theorem generation_counters:
  fixes st :: "'t hook_state"
  shows "triggeredAnimation (initial_state :: 't hook_state) = 0 \<and>
         finishedAnimation (initial_state :: 't hook_state) = 0 \<and>
         counterReducer n = n + 1 \<and>
         triggeredAnimation (snd (commit inp previous element st)) =
           (if deps_trigger st \<noteq> Some (triggerAnimationOnChange inp) \<and> previous \<noteq> None \<and>
               \<not> prefersReducedMotion inp
            then triggeredAnimation st + 1 else triggeredAnimation st) \<and>
         finishedAnimation (snd (commit inp previous element st)) =
           (if deps_triggered st \<noteq> Some (triggeredAnimation st) \<and> triggeredAnimation st \<noteq> 0
            then finishedAnimation st + 1 else finishedAnimation st) \<and>
         triggeredAnimation st \<le> triggeredAnimation (lifecycle steps st) \<and>
         finishedAnimation st \<le> finishedAnimation (lifecycle steps st) \<and>
         reset (useSpring_props inp st) = (triggeredAnimation st \<noteq> finishedAnimation st)"
  using lifecycle_monotone [of st steps]
  by (simp add: commit_triggered commit_finished counterReducer_def initial_state_def
      useSpring_props_def)

text \<open>
  After mounting, a change of the trigger takes the counters to (1, 0) and sets the reset
  flag; the commit after it acknowledges, and the counters are (1, 1).
\<close>

theorem generation_counters_witness:
  "triggeredAnimation (initial_state :: nat hook_state) = 0 \<and>
   finishedAnimation (initial_state :: nat hook_state) = 0 \<and>
   triggeredAnimation
     (snd (commit (animated_inputs 2) (Some before_move) moved_element mounted_state)) = 1 \<and>
   finishedAnimation
     (snd (commit (animated_inputs 2) (Some before_move) moved_element mounted_state)) = 0 \<and>
   reset (useSpring_props (animated_inputs 2)
     (snd (commit (animated_inputs 2) (Some before_move) moved_element mounted_state))) \<and>
   triggeredAnimation
     (lifecycle [(animated_inputs 2, Some before_move, moved_element),
                 (animated_inputs 2, Some before_move, moved_element)] mounted_state) = 1 \<and>
   finishedAnimation
     (lifecycle [(animated_inputs 2, Some before_move, moved_element),
                 (animated_inputs 2, Some before_move, moved_element)] mounted_state) = 1"
proof -
  let ?s1 = "snd (commit (animated_inputs 2) (Some before_move) moved_element mounted_state)"
  let ?s2 = "snd (commit (animated_inputs 2) (Some before_move) moved_element ?s1)"
  have d: "deps_triggered ?s1 = Some 0" "deps_trigger ?s1 = Some 2"
    by (simp_all add: commit_deps mounted_state_simps animated_inputs_simps)
  note a = generation_counters [of 0 "animated_inputs 2" "Some before_move" moved_element
      mounted_state "[]"]
  note b = generation_counters [of 0 "animated_inputs 2" "Some before_move" moved_element
      ?s1 "[]"]
  note c = generation_counters [of 0 "animated_inputs 2" "Some before_move" moved_element
      ?s2 "[]"]
  show ?thesis
    using a b c by (simp add: mounted_state_simps animated_inputs_simps d)
qed

section \<open>Scroll following\<close>

text \<open>
  Claim C7. On a frame where scroll adjustment is requested, a scroll container is held
  and reduced motion is not in effect, the frame callback adds to the container's
  \<open>scrollTop\<close> exactly the difference between the element's live bounding-rect top and
  the \<open>clientTop\<close> recorded in the transform state, and changes nothing else.
\<close>

theorem scroll_follows_on_frame:
  assumes "adjustScrolling inp" and "scrollContainer_current = Some container"
    and "\<not> prefersReducedMotion inp"
  shows "scrollTop (onFrame inp tr scrollContainer_current element) container =
           scrollTop element container
             + (getBoundingClientRect_top element - clientTop tr) \<and>
         onFrame inp tr scrollContainer_current element =
           element\<lparr>scrollTop := (scrollTop element)
             (container := scrollTop element container
                + (getBoundingClientRect_top element - clientTop tr))\<rparr>"
  using assms by (simp add: onFrame_def)

text \<open>
  The element 64 pixels short of its destination stands at 364 on screen, 16 above the
  recorded 380: the container scrolls from 640 to 624.
\<close>

theorem scroll_follows_on_frame_witness:
  "scrollTop
     (onFrame (animated_inputs 2) \<lparr>transform_x = 0, transform_y = 80, clientTop = 380\<rparr>
        (Some 7) (moved_element\<lparr>style_top := PxStr 64\<rparr>)) 7 = 624"
  using scroll_follows_on_frame [of "animated_inputs 2" "Some 7" 7
      "\<lparr>transform_x = 0, transform_y = 80, clientTop = 380\<rparr>"
      "moved_element\<lparr>style_top := PxStr 64\<rparr>"]
  by (simp add: animated_inputs_simps moved_element_def getBoundingClientRect_top_def
      shift_of_def)

section \<open>The toggle button: indicator and arrow-down key\<close>

text \<open>
  The indicator is in the toggle's icon exactly when the hook's result for the block and
  the selected level is true. Whether a true result stands for a valid or for an invalid
  level is not settled by the component.
\<close>

lemma indicator_follows_hook_result:
  "invalid_indicator \<in> set (icon (renderToggle useIsHeadingLevelValid clientId selectedLevel
      isOpen)) \<longleftrightarrow> useIsHeadingLevelValid clientId selectedLevel"
  by (simp add: renderToggle_def invalid_indicator_def)

text \<open>
  Claim C8. On a key-down event the handler calls \<open>onToggle\<close> if and only if the popover
  is closed and the key is the arrow-down key; it then calls it once, after preventing the
  event's default action, and the popover ends up open. With the popover open the handler
  makes no call at all, so the popover stays open.
\<close>

theorem arrow_down_opens_closed_popover:
  "(OnToggle \<in> set (openOnArrowDown DOWN isOpen event) \<longleftrightarrow>
      \<not> isOpen \<and> keyCode event = DOWN) \<and>
   (OnToggle \<in> set (openOnArrowDown DOWN isOpen event) \<longrightarrow>
      openOnArrowDown DOWN isOpen event = [PreventDefault, StopPropagation, OnToggle] \<and>
      after_calls (openOnArrowDown DOWN isOpen event) isOpen) \<and>
   (isOpen \<longrightarrow>
      openOnArrowDown DOWN isOpen event = [] \<and>
      after_calls (openOnArrowDown DOWN isOpen event) isOpen)"
  by (simp add: openOnArrowDown_def)

text \<open>Arrow-down (key code 40) on a closed and on an open popover, and Enter on a closed one.\<close>

theorem arrow_down_opens_closed_popover_witness:
  "OnToggle \<in> set (openOnArrowDown 40 False \<lparr>keyCode = 40\<rparr>) \<and>
   PreventDefault \<in> set (openOnArrowDown 40 False \<lparr>keyCode = 40\<rparr>) \<and>
   after_calls (openOnArrowDown 40 False \<lparr>keyCode = 40\<rparr>) False \<and>
   OnToggle \<notin> set (openOnArrowDown 40 True \<lparr>keyCode = 40\<rparr>) \<and>
   after_calls (openOnArrowDown 40 True \<lparr>keyCode = 40\<rparr>) True \<and>
   OnToggle \<notin> set (openOnArrowDown 40 False \<lparr>keyCode = 13\<rparr>)"
proof -
  have "OnToggle \<in> set (openOnArrowDown 40 False \<lparr>keyCode = 40\<rparr>) \<and>
        PreventDefault \<in> set (openOnArrowDown 40 False \<lparr>keyCode = 40\<rparr>) \<and>
        after_calls (openOnArrowDown 40 False \<lparr>keyCode = 40\<rparr>) False"
    using arrow_down_opens_closed_popover [of 40 False "\<lparr>keyCode = 40\<rparr>"] by auto
  moreover have "OnToggle \<notin> set (openOnArrowDown 40 True \<lparr>keyCode = 40\<rparr>) \<and>
        after_calls (openOnArrowDown 40 True \<lparr>keyCode = 40\<rparr>) True"
    using arrow_down_opens_closed_popover [of 40 True "\<lparr>keyCode = 40\<rparr>"] by auto
  moreover have "OnToggle \<notin> set (openOnArrowDown 40 False \<lparr>keyCode = 13\<rparr>)"
    using arrow_down_opens_closed_popover [of 40 False "\<lparr>keyCode = 13\<rparr>"] by auto
  ultimately show ?thesis by simp
qed

section \<open>Selector lookups\<close>

text \<open>
  Claim C9. A lookup of a missing key gives a sentinel instead of failing:
  \<open>getErrorNoticeForBlock\<close> gives the stored string for a known block and \<open>false\<close> for an
  unknown one, \<open>getDownloadableBlocks\<close> the stored array for a matched query and the empty
  array for an unmatched one. On the states of the test suite: the notice
  \<open>'Error notice'\<close> and \<open>false\<close>; the one-element fixture array for \<open>'boxer'\<close> and \<open>[]\<close>
  for \<open>'not-found'\<close>.
\<close>

theorem missing_keys_give_sentinels:
  fixes state :: "'b directory_state" and downloadableBlock :: 'b
  shows "(map_of (errorNotices state) blockId = Some notice \<longrightarrow>
            getErrorNoticeForBlock state blockId = Notice notice) \<and>
         (map_of (errorNotices state) blockId = None \<longrightarrow>
            getErrorNoticeForBlock state blockId = JsFalse) \<and>
         (map_of (results (downloadableBlocks state)) filterValue = Some blocks \<longrightarrow>
            getDownloadableBlocks state filterValue = blocks) \<and>
         (map_of (results (downloadableBlocks state)) filterValue = None \<longrightarrow>
            getDownloadableBlocks state filterValue = []) \<and>
         getErrorNoticeForBlock (notices_test_state :: 'b directory_state)
           ''block/has-error'' = Notice ''Error notice'' \<and>
         getErrorNoticeForBlock (notices_test_state :: 'b directory_state)
           ''block/no-error'' = JsFalse \<and>
         getDownloadableBlocks (blocks_test_state downloadableBlock) ''boxer'' =
           [downloadableBlock] \<and>
         getDownloadableBlocks (blocks_test_state downloadableBlock) ''not-found'' = []"
  by (simp add: getErrorNoticeForBlock_def getDownloadableBlocks_def notices_test_state_def
      blocks_test_state_def)

text \<open>The general part, applied to the test states with a named block as the fixture.\<close>

theorem missing_keys_give_sentinels_witness:
  "getErrorNoticeForBlock (notices_test_state :: string directory_state) ''block/has-error'' =
     Notice ''Error notice'' \<and>
   getErrorNoticeForBlock (notices_test_state :: string directory_state) ''block/no-error'' =
     JsFalse \<and>
   getDownloadableBlocks (blocks_test_state ''boxer-block'') ''boxer'' = [''boxer-block''] \<and>
   length (getDownloadableBlocks (blocks_test_state ''boxer-block'') ''boxer'') = 1 \<and>
   getDownloadableBlocks (blocks_test_state ''boxer-block'') ''not-found'' = []"
proof -
  have n: "map_of (errorNotices (notices_test_state :: string directory_state))
             ''block/has-error'' = Some ''Error notice''"
    "map_of (errorNotices (notices_test_state :: string directory_state))
             ''block/no-error'' = None"
    by (simp_all add: notices_test_state_def)
  have b: "map_of (results (downloadableBlocks (blocks_test_state ''boxer-block'')))
             ''boxer'' = Some [''boxer-block'']"
    "map_of (results (downloadableBlocks (blocks_test_state ''boxer-block'')))
             ''not-found'' = None"
    by (simp_all add: blocks_test_state_def)
  have "getErrorNoticeForBlock (notices_test_state :: string directory_state)
          ''block/has-error'' = Notice ''Error notice''"
    using missing_keys_give_sentinels [of "notices_test_state :: string directory_state"
        "''block/has-error''" "''Error notice''" "''boxer''" "[]" "''boxer-block''"] n
    by simp
  moreover have "getErrorNoticeForBlock (notices_test_state :: string directory_state)
          ''block/no-error'' = JsFalse"
    using missing_keys_give_sentinels [of "notices_test_state :: string directory_state"
        "''block/no-error''" "''''" "''boxer''" "[]" "''boxer-block''"] n
    by simp
  moreover have "getDownloadableBlocks (blocks_test_state ''boxer-block'') ''boxer'' =
          [''boxer-block'']"
    using missing_keys_give_sentinels [of "blocks_test_state ''boxer-block''"
        "''block/no-error''" "''''" "''boxer''" "[''boxer-block'']" "''boxer-block''"] b
    by simp
  moreover have "getDownloadableBlocks (blocks_test_state ''boxer-block'') ''not-found'' = []"
    using missing_keys_give_sentinels [of "blocks_test_state ''boxer-block''"
        "''block/no-error''" "''''" "''not-found''" "[]" "''boxer-block''"] b
    by simp
  ultimately show ?thesis by simp
qed

end
